theory Spec2Isabelle
  imports Main "HOL-Library.Sublist"
begin

section \<open>Strings and numbers of the scripting platform\<close>

text \<open>
  The scripts under verification are \<^verbatim>\<open>env.template.js\<close> (the Environment Injector,
  function \<^verbatim>\<open>configureRuntimeEnv\<close>) and \<^verbatim>\<open>frontend/app.js\<close> (endpoint resolver, request
  pipeline and the three action handlers).  Their strings are modelled as HOL strings whose
  characters are read as code units below 256; the white space code units of the language
  that lie above 255 are therefore not expressible.
\<close>

definition isWhiteSpace :: "char \<Rightarrow> bool" where
  "isWhiteSpace c \<longleftrightarrow> of_char c \<in> {9, 10, 11, 12, 13, 32, 160 :: nat}"

text \<open>\<^verbatim>\<open>String.prototype.trim\<close> and the leading trim done by \<^verbatim>\<open>parseInt\<close>.\<close>

definition trimStart :: "string \<Rightarrow> string" where
  "trimStart s = dropWhile isWhiteSpace s"

definition trim :: "string \<Rightarrow> string" where
  "trim s = rev (dropWhile isWhiteSpace (rev (dropWhile isWhiteSpace s)))"

definition isDigit :: "char \<Rightarrow> bool" where
  "isDigit c \<longleftrightarrow> 48 \<le> (of_char c :: nat) \<and> (of_char c :: nat) \<le> 57"

definition digitValue :: "char \<Rightarrow> nat" where
  "digitValue c = of_char c - 48"

definition decimalValue :: "string \<Rightarrow> nat" where
  "decimalValue z = foldl (\<lambda>a c. 10 * a + digitValue c) 0 z"

text \<open>
  A Number as far as the scripts can obtain one from \<^verbatim>\<open>parseInt\<close>: not-a-number, an
  infinity, or a finite value that is an integer.  Negative zero is identified with zero:
  the scripts only apply \<^verbatim>\<open>Number.isFinite\<close>, the truth test and the conversion to a
  string to such a value, and these do not distinguish the two zeros.  \<open>Finite n\<close>
  stands for a Number, so \<open>n\<close> is meant to be an integer that binary64 represents.
\<close>

datatype number = NaN | PlusInfinity | MinusInfinity | Finite int

fun bitLength :: "nat \<Rightarrow> nat" where
  "bitLength n = (if n = 0 then 0 else Suc (bitLength (n div 2)))"

declare bitLength.simps [simp del]

text \<open>
  Rounding of a natural number to the nearest binary64 value, ties to even; \<open>None\<close> is
  overflow to infinity.
\<close>

definition roundToDouble :: "nat \<Rightarrow> nat option" where
  "roundToDouble m =
     (if m < 2 ^ 53 then Some m
      else let e = bitLength m - 53;
               q = m div 2 ^ e;
               r = m mod 2 ^ e;
               half = 2 ^ (e - 1);
               q' = (if half < r \<or> (r = half \<and> odd q) then q + 1 else q)
           in if 2 ^ 1024 \<le> q' * 2 ^ e then None else Some (q' * 2 ^ e))"

definition toNumber :: "bool \<Rightarrow> nat \<Rightarrow> number" where
  "toNumber negative m =
     (case roundToDouble m of
        None \<Rightarrow> (if negative then MinusInfinity else PlusInfinity)
      | Some v \<Rightarrow> Finite (if negative then - int v else int v))"

text \<open>
  \<^verbatim>\<open>Number.parseInt(string, 10)\<close>: leading white space is skipped, one sign is read, then
  the longest run of decimal digits; what follows the digits is ignored.  The value of
  the digits is taken exactly before it is rounded to a Number (the language standard
  also lets an implementation read the digits after the twentieth as zeros, which can
  move the result by one unit in the last place).
\<close>

definition unsignedPart :: "string \<Rightarrow> string" where
  "unsignedPart S = (if S \<noteq> [] \<and> (hd S = CHR ''+'' \<or> hd S = CHR ''-'') then tl S else S)"

definition leadingDigits :: "string \<Rightarrow> string" where
  "leadingDigits S = takeWhile isDigit (unsignedPart S)"

definition parseInt10 :: "string \<Rightarrow> number" where
  "parseInt10 string =
     (let S = trimStart string;
          negative = (S \<noteq> [] \<and> hd S = CHR ''-'');
          Z = leadingDigits S
      in if Z = [] then NaN else toNumber negative (decimalValue Z))"

fun isFinite :: "number \<Rightarrow> bool" where
  "isFinite (Finite n) = True"
| "isFinite NaN = False"
| "isFinite PlusInfinity = False"
| "isFinite MinusInfinity = False"

text \<open>
  Conversion of a Number to a string (\<^verbatim>\<open>Number::toString\<close>, radix 10), as template
  literals apply it.  Below \<open>2 ^ 53\<close> every integer is printed with all its digits.  From
  there on the platform prints the shortest digit string \<open>s\<close> (of \<open>k\<close> digits) such that
  \<open>s * 10 ^ (n - k)\<close> rounds to the value, the nearest such if there are several, padded
  with zeros up to \<open>n \<le> 21\<close> digits and in exponent form beyond.
\<close>

definition digitChar :: "nat \<Rightarrow> char" where
  "digitChar d = ''0123456789'' ! d"

fun decimal :: "nat \<Rightarrow> string" where
  "decimal n = (if n < 10 then [digitChar n] else decimal (n div 10) @ [digitChar (n mod 10)])"

declare decimal.simps [simp del]

definition distance :: "nat \<Rightarrow> nat \<Rightarrow> nat" where
  "distance a b = (if a \<le> b then b - a else a - b)"

text \<open>
  The candidates with \<open>k\<close> digits for a value \<open>x\<close> of \<open>d\<close> digits: \<open>x\<close> cut after \<open>k\<close>
  digits, rounded down and rounded up.  The result is the chosen \<open>s * 10 ^ (d - k)\<close>.
\<close>

definition candidate :: "nat \<Rightarrow> nat \<Rightarrow> nat \<Rightarrow> nat option" where
  "candidate x d k =
     (let p = 10 ^ (d - k);
          lo = x div p;
          down = lo * p;
          up = (lo + 1) * p;
          okDown = (roundToDouble down = Some x);
          okUp = (roundToDouble up = Some x)
      in if okDown \<and> okUp then
           (if distance down x < distance up x \<or> (distance down x = distance up x \<and> even lo)
            then Some down else Some up)
         else if okDown then Some down
         else if okUp then Some up
         else None)"

fun shortest :: "nat \<Rightarrow> nat \<Rightarrow> nat \<Rightarrow> nat \<Rightarrow> nat" where
  "shortest x d k 0 = x"
| "shortest x d k (Suc fuel) =
     (if d \<le> k then x
      else case candidate x d k of Some c \<Rightarrow> c | None \<Rightarrow> shortest x d (Suc k) fuel)"

definition stripZeros :: "string \<Rightarrow> string" where
  "stripZeros ds = rev (dropWhile (\<lambda>c. c = CHR ''0'') (rev ds))"

definition naturalToString :: "nat \<Rightarrow> string" where
  "naturalToString x =
     (if x < 2 ^ 53 then decimal x
      else let c = decimal (shortest x (length (decimal x)) 1 17);
               n = length c;
               s = stripZeros c
           in if n \<le> 21 then c
              else if length s = 1 then s @ ''e+'' @ decimal (n - 1)
              else hd s # ''.'' @ tl s @ ''e+'' @ decimal (n - 1))"

fun numberToString :: "number \<Rightarrow> string" where
  "numberToString NaN = ''NaN''"
| "numberToString PlusInfinity = ''Infinity''"
| "numberToString MinusInfinity = ''-Infinity''"
| "numberToString (Finite x) =
     (if x < 0 then ''-'' @ naturalToString (nat (- x)) else naturalToString (nat x))"

text \<open>The truth test of the language on a Number and on a string.\<close>

fun truthyNumber :: "number \<Rightarrow> bool" where
  "truthyNumber NaN = False"
| "truthyNumber (Finite x) = (x \<noteq> 0)"
| "truthyNumber PlusInfinity = True"
| "truthyNumber MinusInfinity = True"

definition truthyString :: "string \<Rightarrow> bool" where
  "truthyString s \<longleftrightarrow> s \<noteq> []"

section \<open>Environment Injector\<close>

text \<open>
  The two globals \<^verbatim>\<open>window.__BACKEND_URL__\<close> and \<^verbatim>\<open>window.__BACKEND_PORT__\<close>
  (the Runtime Configuration); \<open>None\<close> is a property that was never assigned.
\<close>

record window =
  BACKEND_URL :: "string option"
  BACKEND_PORT :: "number option"

definition placeholderUrl :: string where
  "placeholderUrl = ''${'' @ ''BACKEND_URL'' @ ''}''"

definition placeholderPort :: string where
  "placeholderPort = ''${'' @ ''BACKEND_PORT'' @ ''}''"

text \<open>
  \<^verbatim>\<open>configureRuntimeEnv\<close> of \<^verbatim>\<open>env.template.js\<close>.  Its inputs \<open>urlLiteral\<close> and
  \<open>portLiteral\<close> are the values of the two string literals of the template after the
  container start has (or has not) substituted them.
\<close>

definition configureRuntimeEnv :: "string \<Rightarrow> string \<Rightarrow> window \<Rightarrow> window" where
  "configureRuntimeEnv urlLiteral portLiteral w =
     (let configuredUrl = trim urlLiteral;
          configuredPort = trim portLiteral;
          w1 = (if truthyString configuredUrl \<and> configuredUrl \<noteq> placeholderUrl
                then w\<lparr>BACKEND_URL := Some configuredUrl\<rparr> else w)
      in if truthyString configuredPort \<and> configuredPort \<noteq> placeholderPort
         then (let numericPort = parseInt10 configuredPort
               in if isFinite numericPort then w1\<lparr>BACKEND_PORT := Some numericPort\<rparr> else w1)
         else w1)"

definition freshWindow :: window where
  "freshWindow = \<lparr>BACKEND_URL = None, BACKEND_PORT = None\<rparr>"

section \<open>Endpoint Resolver\<close>

record location =
  protocol :: string
  hostname :: string

text \<open>The constant \<^verbatim>\<open>backendBaseUrl\<close> of \<^verbatim>\<open>app.js\<close>, lines 1 to 9.\<close>

definition backendBaseUrl :: "window \<Rightarrow> location \<Rightarrow> string" where
  "backendBaseUrl w loc =
     (let constructed =
            (let defaultPort = Finite 8000;
                 port = (case BACKEND_PORT w of
                           Some p \<Rightarrow> if truthyNumber p then p else defaultPort
                         | None \<Rightarrow> defaultPort)
             in protocol loc @ ''//'' @ hostname loc @ '':'' @ numberToString port)
      in case BACKEND_URL w of
           Some u \<Rightarrow> if truthyString u then u else constructed
         | None \<Rightarrow> constructed)"

text \<open>
  The resolver as the specification words it: an injected URL wins whenever it is present,
  an injected port is used whenever it is present.
\<close>

definition resolveBaseUrl_spec :: "window \<Rightarrow> location \<Rightarrow> string" where
  "resolveBaseUrl_spec w loc =
     (case BACKEND_URL w of
        Some u \<Rightarrow> u
      | None \<Rightarrow> protocol loc @ ''//'' @ hostname loc @ '':'' @
          numberToString (case BACKEND_PORT w of Some p \<Rightarrow> p | None \<Rightarrow> Finite 8000))"

text \<open>
  What the specification calls a port input that denotes a number as a whole: after
  trimming, an optional sign followed by decimal digits and nothing else.
\<close>

definition wholeInputNumeric_spec :: "string \<Rightarrow> bool" where
  "wholeInputNumeric_spec s \<longleftrightarrow>
     unsignedPart (trim s) \<noteq> [] \<and> list_all isDigit (unsignedPart (trim s))"

section \<open>Errors, URLs and the platform\<close>

text \<open>
  An exception of the language is a value; \<open>message\<close> is the property the handlers display.
  A call that may throw, and a promise that may reject, has a result of type
  \<open>error + 'a\<close>.
\<close>

datatype error =
    Error (message: string)
  | TypeError (message: string)
  | SyntaxError (message: string)

text \<open>\<^verbatim>\<open>String.prototype.includes\<close>.\<close>

definition string_includes :: "string \<Rightarrow> string \<Rightarrow> bool" where
  "string_includes s searchString \<longleftrightarrow> sublist searchString s"

text \<open>The \<^verbatim>\<open>URL\<close> object as far as the scripts read it.\<close>

record url =
  origin :: string

text \<open>
  The value a promise of the pipeline resolves to: a string, or a structured value of the
  platform's type \<open>'j\<close> (what \<^verbatim>\<open>JSON.parse\<close> yields when the text is not a JSON
  string).
\<close>

datatype 'j payload = StringValue string | Structured 'j

text \<open>
  The browser functions the scripts call and this repository does not define:
  \<open>newURL\<close> is \<^verbatim>\<open>new URL(url)\<close>, \<open>resolveURL path base\<close> is the serialisation of
  \<^verbatim>\<open>new URL(path, base)\<close>, \<open>jsonParse\<close> is the parsing done by \<^verbatim>\<open>response.json()\<close>
  and \<open>jsonStringify\<close> is \<^verbatim>\<open>JSON.stringify(payload, null, 2)\<close> on a structured value.
\<close>

record 'j platform =
  newURL :: "string \<Rightarrow> error + url"
  resolveURL :: "string \<Rightarrow> string \<Rightarrow> error + string"
  jsonParse :: "string \<Rightarrow> error + 'j payload"
  jsonStringify :: "'j \<Rightarrow> string"

text \<open>\<^verbatim>\<open>normalizeUrl\<close> of \<^verbatim>\<open>app.js\<close>, lines 11 to 18.\<close>

definition normalizeUrl :: "'j platform \<Rightarrow> string \<Rightarrow> string" where
  "normalizeUrl P u =
     (case newURL P u of
        Inr normalized \<Rightarrow> origin normalized
      | Inl error \<Rightarrow> u)"

subsection \<open>The URL parser for the inputs of the examples\<close>

text \<open>
  Modelled from the URL Standard (basic URL parser without a base URL, host parser, origin),
  which \<^verbatim>\<open>new URL(url)\<close> and the \<^verbatim>\<open>origin\<close> getter implement.  The result is
  \<open>Some\<close> of a failure or of the parsed origin; it is \<open>None\<close> where the input needs a
  part of the standard that is not modelled: the schemes \<open>file\<close> and \<open>blob\<close>, an
  authority after a scheme that is not special, and hosts that are bracketed, contain
  \<open>%\<close> or a code unit above 127, have a label starting with \<open>xn--\<close>, or have a last
  label starting with a digit.
\<close>

definition isAsciiAlpha :: "char \<Rightarrow> bool" where
  "isAsciiAlpha c \<longleftrightarrow>
     (65 \<le> (of_char c :: nat) \<and> (of_char c :: nat) \<le> 90) \<or>
     (97 \<le> (of_char c :: nat) \<and> (of_char c :: nat) \<le> 122)"

definition isSchemeChar :: "char \<Rightarrow> bool" where
  "isSchemeChar c \<longleftrightarrow> isAsciiAlpha c \<or> isDigit c \<or> c \<in> {CHR ''+'', CHR ''-'', CHR ''.''}"

definition asciiLower :: "char \<Rightarrow> char" where
  "asciiLower c =
     (if 65 \<le> (of_char c :: nat) \<and> (of_char c :: nat) \<le> 90
      then char_of (of_char c + (32 :: nat)) else c)"

definition isC0ControlOrSpace :: "char \<Rightarrow> bool" where
  "isC0ControlOrSpace c \<longleftrightarrow> (of_char c :: nat) \<le> 32"

definition isTabOrNewline :: "char \<Rightarrow> bool" where
  "isTabOrNewline c \<longleftrightarrow> of_char c \<in> {9, 10, 13 :: nat}"

definition preprocess :: "string \<Rightarrow> string" where
  "preprocess input =
     filter (\<lambda>c. \<not> isTabOrNewline c)
       (rev (dropWhile isC0ControlOrSpace (rev (dropWhile isC0ControlOrSpace input))))"

definition specialSchemes :: "(string \<times> nat) list" where
  "specialSchemes =
     [(''ftp'', 21), (''http'', 80), (''https'', 443), (''ws'', 80), (''wss'', 443)]"

definition isAuthorityEnd :: "char \<Rightarrow> bool" where
  "isAuthorityEnd c \<longleftrightarrow> c \<in> {CHR ''/'', CHR ''?'', CHR ''#'', CHR 0x5C}"

definition isSlash :: "char \<Rightarrow> bool" where
  "isSlash c \<longleftrightarrow> c = CHR ''/'' \<or> c = CHR 0x5C"

definition isForbiddenDomainCodePoint :: "char \<Rightarrow> bool" where
  "isForbiddenDomainCodePoint c \<longleftrightarrow>
     (of_char c :: nat) \<le> 32 \<or> (of_char c :: nat) = 127 \<or>
     c \<in> {CHR ''#'', CHR ''/'', CHR '':'', CHR ''<'', CHR ''>'', CHR ''?'', CHR ''@'',
          CHR ''['', CHR 0x5C, CHR '']'', CHR ''^'', CHR ''|'', CHR ''%''}"

fun labels :: "string \<Rightarrow> string list" where
  "labels [] = [[]]"
| "labels (c # cs) =
     (if c = CHR ''.'' then [] # labels cs
      else (case labels cs of l # ls \<Rightarrow> (c # l) # ls | [] \<Rightarrow> [[c]]))"

definition lastLabel :: "string \<Rightarrow> string" where
  "lastLabel domain =
     (let parts = labels domain;
          parts' = (if last parts = [] \<and> 1 < length parts then butlast parts else parts)
      in last parts')"

datatype host_result = HostFailure | HostUnmodelled | Domain string

definition hostParser :: "string \<Rightarrow> host_result" where
  "hostParser input =
     (if input \<noteq> [] \<and> hd input = CHR ''[''
         then HostUnmodelled
      else if \<exists>c \<in> set input. c = CHR ''%'' \<or> 127 < (of_char c :: nat)
         then HostUnmodelled
      else if \<exists>l \<in> set (labels input). prefix ''xn--'' (map asciiLower l)
         then HostUnmodelled
      else let asciiDomain = map asciiLower input
           in if asciiDomain = [] then HostFailure
              else if \<exists>c \<in> set asciiDomain. isForbiddenDomainCodePoint c then HostFailure
              else if lastLabel asciiDomain \<noteq> [] \<and> isDigit (hd (lastLabel asciiDomain))
                 then HostUnmodelled
              else Domain asciiDomain)"

definition portParser :: "nat \<Rightarrow> string \<Rightarrow> (nat option) option" where
  "portParser defaultPort buffer =
     (if \<not> list_all isDigit buffer then None
      else if buffer = [] then Some None
      else if 65535 < decimalValue buffer then None
      else if decimalValue buffer = defaultPort then Some None
      else Some (Some (decimalValue buffer)))"

definition invalidURL :: error where
  "invalidURL = TypeError ''Invalid URL''"

definition specialAuthority :: "string \<Rightarrow> nat \<Rightarrow> string \<Rightarrow> (error + url) option" where
  "specialAuthority scheme defaultPort remaining =
     (let afterSlashes = dropWhile isSlash remaining;
          authority = takeWhile (\<lambda>c. \<not> isAuthorityEnd c) afterSlashes;
          hostPort = (if CHR ''@'' \<in> set authority
                      then rev (takeWhile (\<lambda>c. c \<noteq> CHR ''@'') (rev authority))
                      else authority);
          hostText = takeWhile (\<lambda>c. c \<noteq> CHR '':'') hostPort;
          afterHost = dropWhile (\<lambda>c. c \<noteq> CHR '':'') hostPort
      in if hostPort \<noteq> [] \<and> hd hostPort = CHR ''['' then None
         else if hostText = [] then Some (Inl invalidURL)
         else case hostParser hostText of
                HostFailure \<Rightarrow> Some (Inl invalidURL)
              | HostUnmodelled \<Rightarrow> None
              | Domain h \<Rightarrow>
                  (case portParser defaultPort (tl afterHost) of
                     None \<Rightarrow> Some (Inl invalidURL)
                   | Some p \<Rightarrow>
                       Some (Inr \<lparr>origin = scheme @ ''://'' @ h @
                                    (case p of None \<Rightarrow> [] | Some n \<Rightarrow> '':'' @ decimal n)\<rparr>)))"

definition basicURLParser :: "string \<Rightarrow> (error + url) option" where
  "basicURLParser input =
     (let s = preprocess input
      in if s = [] \<or> \<not> isAsciiAlpha (hd s) then Some (Inl invalidURL)
         else let buffer = takeWhile isSchemeChar s;
                  rest = dropWhile isSchemeChar s
              in if rest = [] \<or> hd rest \<noteq> CHR '':'' then Some (Inl invalidURL)
                 else let scheme = map asciiLower buffer;
                          remaining = tl rest
                      in case map_of specialSchemes scheme of
                           Some defaultPort \<Rightarrow> specialAuthority scheme defaultPort remaining
                         | None \<Rightarrow>
                             if scheme = ''file'' \<or> scheme = ''blob'' then None
                             else if prefix ''//'' remaining then None
                             else Some (Inr \<lparr>origin = ''null''\<rparr>))"

text \<open>A platform follows the standard where this model of it is defined.\<close>

definition followsURLStandard :: "'j platform \<Rightarrow> bool" where
  "followsURLStandard P \<longleftrightarrow> (\<forall>s r. basicURLParser s = Some r \<longrightarrow> newURL P s = r)"

section \<open>Request Pipeline\<close>

text \<open>
  A \<^verbatim>\<open>Response\<close>: \<open>headers\<close> maps a lower-case header name to what
  \<^verbatim>\<open>headers.get\<close> returns for it, \<open>body\<close> is what reading the body as text settles to
  (a failure when the transfer breaks off).
\<close>

record response =
  status :: nat
  statusText :: string
  headers :: "string \<rightharpoonup> string"
  body :: "error + string"

text \<open>
  The getter \<^verbatim>\<open>response.ok\<close> and the settled values of \<^verbatim>\<open>response.text()\<close> and
  \<^verbatim>\<open>response.json()\<close>; the latter reads the body and then parses it.
\<close>

definition ok :: "response \<Rightarrow> bool" where
  "ok r \<longleftrightarrow> 200 \<le> status r \<and> status r \<le> 299"

definition text_of :: "response \<Rightarrow> error + string" where
  "text_of r = body r"

definition json_of :: "'j platform \<Rightarrow> response \<Rightarrow> error + 'j payload" where
  "json_of P r = (case body r of Inl e \<Rightarrow> Inl e | Inr b \<Rightarrow> jsonParse P b)"

text \<open>
  \<^verbatim>\<open>fetchFromBackend\<close> of \<^verbatim>\<open>app.js\<close>, lines 41 to 53: the value the returned promise
  settles to.  \<open>base\<close> is the constant \<^verbatim>\<open>backendBaseUrl\<close>; \<open>fetch\<close> is what
  the network answers to the one request: a response, or a rejection when the transport
  fails.
\<close>

definition fetchFromBackend ::
  "'j platform \<Rightarrow> string \<Rightarrow> (string \<Rightarrow> error + response) \<Rightarrow> string \<Rightarrow> error + 'j payload"
where
  "fetchFromBackend P base fetch path =
     (case resolveURL P path base of
        Inl e \<Rightarrow> Inl e
      | Inr u \<Rightarrow>
          (case fetch u of
             Inl e \<Rightarrow> Inl e
           | Inr response \<Rightarrow>
               if \<not> ok response then
                 (case text_of response of
                    Inl e \<Rightarrow> Inl e
                  | Inr bodyText \<Rightarrow>
                      Inl (Error (numberToString (Finite (int (status response))) @ '' '' @
                                  statusText response @ '': '' @ bodyText)))
               else
                 (let contentType = headers response ''content-type''
                  in if (case contentType of
                           Some c \<Rightarrow> truthyString c \<and> string_includes c ''application/json''
                         | None \<Rightarrow> False)
                     then json_of P response
                     else (case text_of response of
                             Inl e \<Rightarrow> Inl e
                           | Inr t \<Rightarrow> Inr (StringValue t)))))"

section \<open>Result display and the three actions\<close>

text \<open>
  An element as far as the scripts touch it: its class list (an ordered set of tokens) and
  its text.  The three result containers are the constants of lines 30, 32 and 34; the
  page is taken to provide them, as the script dereferences them without a test.
\<close>

record element =
  classList :: "string list"
  textContent :: string

datatype container = healthResult | openItemsResult | consoleResult

datatype action = HealthCheck | OpenItems | ConsoleQuery

text \<open>
  The state of the page between two turns of the event loop: the result containers, the
  two optional elements of lines 20 to 28, the paths \<^verbatim>\<open>fetchFromBackend\<close> has been called
  with, and the calls whose promise has not settled yet.
\<close>

record page =
  results :: "container \<Rightarrow> element"
  endpointElement :: "element option"
  yearElement :: "element option"
  invoked :: "string list"
  pending :: "(action \<times> string) list"

definition toggle :: "string \<Rightarrow> bool \<Rightarrow> string list \<Rightarrow> string list" where
  "toggle token force tokens =
     (if force then (if token \<in> set tokens then tokens else tokens @ [token])
      else removeAll token tokens)"

text \<open>\<^verbatim>\<open>displayResult\<close> of \<^verbatim>\<open>app.js\<close>, lines 36 to 39.\<close>

definition displayResult ::
  "'j platform \<Rightarrow> container \<Rightarrow> 'j payload \<Rightarrow> bool \<Rightarrow> page \<Rightarrow> page"
where
  "displayResult P c payload isError s =
     s\<lparr>results := (results s)
        (c := \<lparr>classList = toggle ''error'' isError (classList (results s c)),
               textContent = (case payload of
                                StringValue t \<Rightarrow> t
                              | Structured j \<Rightarrow> jsonStringify P j)\<rparr>)\<rparr>"

text \<open>
  A handler is an asynchronous function with one \<^verbatim>\<open>await\<close>.  Its part before the
  \<^verbatim>\<open>await\<close> runs when the event is dispatched and ends with the call of
  \<^verbatim>\<open>fetchFromBackend\<close>, recorded by \<open>callFetchFromBackend\<close>; its part after the
  \<^verbatim>\<open>await\<close> (the \<^verbatim>\<open>try\<close> and \<^verbatim>\<open>catch\<close> branches) runs in a later turn with the
  value the promise settled to.
\<close>

definition callFetchFromBackend :: "action \<Rightarrow> string \<Rightarrow> page \<Rightarrow> page" where
  "callFetchFromBackend a path s =
     s\<lparr>invoked := invoked s @ [path], pending := pending s @ [(a, path)]\<rparr>"

definition loading :: string where
  "loading = ''Lade...''"

definition invalidOrganization :: string where
  "invalidOrganization = ''Ung'' @ [CHR 0xFC] @ ''ltige Organisation-ID.''"

text \<open>The click handler of the health button, lines 55 to 63.\<close>

definition healthClick :: "'j platform \<Rightarrow> page \<Rightarrow> page" where
  "healthClick P s =
     callFetchFromBackend HealthCheck ''/health''
       (displayResult P healthResult (StringValue loading) False s)"

definition healthSettled :: "'j platform \<Rightarrow> error + 'j payload \<Rightarrow> page \<Rightarrow> page" where
  "healthSettled P outcome s =
     (case outcome of
        Inr data \<Rightarrow> displayResult P healthResult data False s
      | Inl error \<Rightarrow> displayResult P healthResult (StringValue (message error)) True s)"

text \<open>
  The submit handler of the open-items form, lines 65 to 79; \<open>v\<close> is the value of the
  field \<^verbatim>\<open>organization-id\<close>.
\<close>

definition openItemsSubmit :: "'j platform \<Rightarrow> string \<Rightarrow> page \<Rightarrow> page" where
  "openItemsSubmit P v s =
     (let organizationId = parseInt10 v
      in if \<not> isFinite organizationId
         then displayResult P openItemsResult (StringValue invalidOrganization) True s
         else callFetchFromBackend OpenItems
                (''/invoices/open?organization_id='' @ numberToString organizationId)
                (displayResult P openItemsResult (StringValue loading) False s))"

definition openItemsSettled :: "'j platform \<Rightarrow> error + 'j payload \<Rightarrow> page \<Rightarrow> page" where
  "openItemsSettled P outcome s =
     (case outcome of
        Inr data \<Rightarrow> displayResult P openItemsResult data False s
      | Inl error \<Rightarrow> displayResult P openItemsResult (StringValue (message error)) True s)"

text \<open>
  The submit handler of the console form, lines 81 to 91; \<open>v\<close> is the value of the field
  \<^verbatim>\<open>console-path\<close>.
\<close>

definition consoleSubmit :: "'j platform \<Rightarrow> string \<Rightarrow> page \<Rightarrow> page" where
  "consoleSubmit P v s =
     (let pathInput = (if truthyString v then v else ''/'')
      in callFetchFromBackend ConsoleQuery pathInput
           (displayResult P consoleResult (StringValue loading) False s))"

definition consoleSettled :: "'j platform \<Rightarrow> error + 'j payload \<Rightarrow> page \<Rightarrow> page" where
  "consoleSettled P outcome s =
     (case outcome of
        Inr data \<Rightarrow> displayResult P consoleResult data False s
      | Inl error \<Rightarrow> displayResult P consoleResult (StringValue (message error)) True s)"

subsection \<open>The event loop\<close>

text \<open>
  One turn of the event loop is the dispatch of a user event, or the settling of one of
  the pending calls with the answer of the network to it, in any order.
\<close>

datatype event =
    Click
  | SubmitOpenItems string
  | SubmitConsole string
  | Settle nat "string \<Rightarrow> error + response"

definition removeAt :: "nat \<Rightarrow> 'a list \<Rightarrow> 'a list" where
  "removeAt i xs = take i xs @ drop (Suc i) xs"

definition settle ::
  "'j platform \<Rightarrow> string \<Rightarrow> nat \<Rightarrow> (string \<Rightarrow> error + response) \<Rightarrow> page \<Rightarrow> page"
where
  "settle P base i fetch s =
     (if i < length (pending s) then
        (let a = fst (pending s ! i);
             path = snd (pending s ! i);
             outcome = fetchFromBackend P base fetch path;
             s' = s\<lparr>pending := removeAt i (pending s)\<rparr>
         in case a of
              HealthCheck \<Rightarrow> healthSettled P outcome s'
            | OpenItems \<Rightarrow> openItemsSettled P outcome s'
            | ConsoleQuery \<Rightarrow> consoleSettled P outcome s')
      else s)"

fun step :: "'j platform \<Rightarrow> string \<Rightarrow> page \<Rightarrow> event \<Rightarrow> page" where
  "step P base s Click = healthClick P s"
| "step P base s (SubmitOpenItems v) = openItemsSubmit P v s"
| "step P base s (SubmitConsole v) = consoleSubmit P v s"
| "step P base s (Settle i fetch) = settle P base i fetch s"

text \<open>The action an event belongs to; a \<open>Settle\<close> that names no pending call has none.\<close>

fun actionOf :: "page \<Rightarrow> event \<Rightarrow> action option" where
  "actionOf s Click = Some HealthCheck"
| "actionOf s (SubmitOpenItems v) = Some OpenItems"
| "actionOf s (SubmitConsole v) = Some ConsoleQuery"
| "actionOf s (Settle i fetch) = (if i < length (pending s) then Some (fst (pending s ! i)) else None)"

fun containerOf :: "action \<Rightarrow> container" where
  "containerOf HealthCheck = healthResult"
| "containerOf OpenItems = openItemsResult"
| "containerOf ConsoleQuery = consoleResult"

text \<open>An event whose outcome is a failure: a settling whose promise is rejected.\<close>

fun failureOf :: "'j platform \<Rightarrow> string \<Rightarrow> page \<Rightarrow> event \<Rightarrow> bool" where
  "failureOf P base s (Settle i fetch) =
     (i < length (pending s) \<and>
      isl (fetchFromBackend P base fetch (snd (pending s ! i))))"
| "failureOf P base s e = False"

subsection \<open>Script initialisation\<close>

text \<open>
  The top level of \<^verbatim>\<open>app.js\<close>: the base URL is computed, the endpoint and year elements
  are filled in when the page has them, the handlers are registered, and line 94 clicks
  the health button.  \<open>doc\<close> is the page as loaded, \<open>fullYear\<close> is
  \<^verbatim>\<open>new Date().getFullYear()\<close>.
\<close>

record document =
  backendEndpoint :: "element option"
  currentYear :: "element option"
  resultElements :: "container \<Rightarrow> element"

definition initialise ::
  "'j platform \<Rightarrow> window \<Rightarrow> location \<Rightarrow> int \<Rightarrow> document \<Rightarrow> string \<times> page"
where
  "initialise P w loc fullYear doc =
     (let base = backendBaseUrl w loc;
          endpointElement' = map_option (\<lambda>e. e\<lparr>textContent := normalizeUrl P base\<rparr>)
                               (backendEndpoint doc);
          yearElement' = map_option (\<lambda>e. e\<lparr>textContent := numberToString (Finite fullYear)\<rparr>)
                           (currentYear doc);
          s = \<lparr>results = resultElements doc, endpointElement = endpointElement',
               yearElement = yearElement', invoked = [], pending = []\<rparr>
      in (base, healthClick P s))"

subsection \<open>A platform for the examples\<close>

text \<open>
  A platform instance on which the examples of the specification are evaluated.  Its URL
  constructor is the modelled part of the URL Standard (an input outside of it is
  reported as a failure); relative references are resolved for a path that starts with
  one slash against a base that parses; its structured values are texts, and its JSON
  parser accepts the one payload of the examples.
\<close>

definition examplePlatform :: "string platform" where
  "examplePlatform =
     \<lparr>newURL = (\<lambda>u. case basicURLParser u of Some r \<Rightarrow> r | None \<Rightarrow> Inl invalidURL),
      resolveURL = (\<lambda>path base.
         case basicURLParser base of
           Some (Inr b) \<Rightarrow>
             if prefix ''/'' path \<and> \<not> prefix ''//'' path \<and> origin b \<noteq> ''null''
             then Inr (origin b @ path) else Inl invalidURL
         | _ \<Rightarrow> Inl invalidURL),
      jsonParse = (\<lambda>t. if t = ''{\"status\":\"ok\"}'' then Inr (Structured ''status: ok'')
                        else Inl (SyntaxError ''Unexpected token'')),
      jsonStringify = (\<lambda>j. ''{ '' @ j @ '' }'')\<rparr>"

subsection \<open>Pages, responses and network answers of the examples\<close>

definition blankElement :: element where
  "blankElement = \<lparr>classList = [], textContent = []\<rparr>"

definition blankPage :: page where
  "blankPage = \<lparr>results = (\<lambda>c. blankElement), endpointElement = None, yearElement = None,
                 invoked = [], pending = []\<rparr>"

definition blankDocument :: document where
  "blankDocument = \<lparr>backendEndpoint = Some blankElement, currentYear = Some blankElement,
                     resultElements = (\<lambda>c. blankElement)\<rparr>"

definition portalLocation :: location where
  "portalLocation = \<lparr>protocol = ''https:'', hostname = ''portal.example''\<rparr>"

definition notFound :: response where
  "notFound = \<lparr>status = 404, statusText = ''Not Found'',
               headers = [''content-type'' \<mapsto> ''application/json''],
               body = Inr ''not found''\<rparr>"

definition okJson :: response where
  "okJson = \<lparr>status = 200, statusText = ''OK'',
             headers = [''content-type'' \<mapsto> ''application/json; charset=utf-8''],
             body = Inr ''{\"status\":\"ok\"}''\<rparr>"

definition okText :: response where
  "okText = \<lparr>status = 200, statusText = ''OK'',
             headers = [''content-type'' \<mapsto> ''text/plain''],
             body = Inr ''{\"status\":\"ok\"}''\<rparr>"

definition offline :: "string \<Rightarrow> error + response" where
  "offline u = Inl (TypeError ''Failed to fetch'')"

definition answersOkText :: "string \<Rightarrow> error + response" where
  "answersOkText u = Inr okText"

text \<open>The events a user causes, as opposed to the settling of a pending call.\<close>

fun isUserEvent :: "event \<Rightarrow> bool" where
  "isUserEvent (Settle i fetch) = False"
| "isUserEvent e = True"


section \<open>Verified properties\<close>

subsection \<open>Evaluation rules and auxiliary facts\<close>

lemmas eval_strings = trim_def trimStart_def isWhiteSpace_def isDigit_def digitValue_def
  decimalValue_def unsignedPart_def leadingDigits_def truthyString_def placeholderUrl_def
  placeholderPort_def
lemmas eval_numbers = parseInt10_def toNumber_def roundToDouble_def naturalToString_def
  decimal.simps digitChar_def

text \<open>The bit length brackets a positive number between two powers of two.\<close>

lemma bitLength_bounds:
  "0 < m \<Longrightarrow> 2 ^ (bitLength m - 1) \<le> m \<and> m < 2 ^ bitLength m"
proof (induction m rule: bitLength.induct)
  case (1 n)
  show ?case
  proof (cases "n div 2 = 0")
    case True
    with 1(2) have "n = 1" by (simp add: div_eq_0_iff) 
    then show ?thesis by (simp add: bitLength.simps)
  next
    case False
    then have pos: "0 < n div 2" by simp
    from 1(1)[OF _ pos] 1(2)
    have ih: "2 ^ (bitLength (n div 2) - 1) \<le> n div 2" "n div 2 < 2 ^ bitLength (n div 2)"
      by auto
    have bl: "bitLength n = Suc (bitLength (n div 2))"
      using 1(2) by (subst bitLength.simps) simp
    have bpos: "0 < bitLength (n div 2)"
      using pos by (subst bitLength.simps) simp
    then obtain k where k: "bitLength (n div 2) = Suc k" by (cases "bitLength (n div 2)") auto
    from ih k have "2 * 2 ^ k \<le> n" "n < 2 * 2 ^ Suc k" by auto
    then show ?thesis by (simp add: bl k)
  qed
qed

lemma round_parts:
  assumes big: "(2::nat) ^ 53 \<le> m"
  shows "53 < bitLength m"
    and "2 ^ 52 \<le> m div 2 ^ (bitLength m - 53)"
    and "m div 2 ^ (bitLength m - 53) < 2 ^ 53"
proof -
  have pos: "0 < m" using big by (cases "m = 0") auto
  from bitLength_bounds[OF pos]
  have lo: "2 ^ (bitLength m - 1) \<le> m" and hi: "m < 2 ^ bitLength m" by auto
  have "(2::nat) ^ 53 < 2 ^ bitLength m" using big hi by (rule le_less_trans)
  then show b: "53 < bitLength m" by (simp only: power_strict_increasing_iff) 
  define e where "e = bitLength m - 53"
  have be: "bitLength m = e + 53" using b by (simp add: e_def)
  have "(2::nat) ^ 52 * 2 ^ e \<le> m" using lo by (simp add: be power_add mult.commute)
  then have "2 ^ 52 \<le> m div 2 ^ e" by (simp add: less_eq_div_iff_mult_less_eq)
  then show "2 ^ 52 \<le> m div 2 ^ (bitLength m - 53)" by (simp only: e_def)
  have "m < 2 ^ 53 * 2 ^ e" using hi by (simp add: be power_add mult.commute)
  then have "m div 2 ^ e < 2 ^ 53" by (simp add: less_mult_imp_div_less)
  then show "m div 2 ^ (bitLength m - 53) < 2 ^ 53" by (simp only: e_def)
qed

text \<open>
  Rounding overflows exactly from \<open>2 ^ 1024 - 2 ^ 970\<close> on, the midpoint between the
  largest finite binary64 value and \<open>2 ^ 1024\<close>.
\<close>

lemma roundToDouble_None_iff:
  "roundToDouble m = None \<longleftrightarrow> 2 ^ 1024 - 2 ^ 970 \<le> m"
proof (cases "m < 2 ^ 53")
  case True
  then show ?thesis by (simp add: roundToDouble_def)
next
  case False
  then have big: "2 ^ 53 \<le> m" by simp
  define e where "e = bitLength m - 53"
  define q where "q = m div 2 ^ e"
  define r where "r = m mod 2 ^ e"
  define q' where "q' = (if 2 ^ (e - 1) < r \<or> (r = 2 ^ (e - 1) \<and> odd q) then q + 1 else q)"
  have rd: "roundToDouble m = (if 2 ^ 1024 \<le> q' * 2 ^ e then None else Some (q' * 2 ^ e))"
    using False by (simp add: roundToDouble_def Let_def e_def q_def r_def q'_def)
  from round_parts[OF big]
  have b: "53 < bitLength m" and qlo: "2 ^ 52 \<le> q" and qhi: "q < 2 ^ 53"
    by (simp_all add: q_def e_def)
  have be: "bitLength m = e + 53" using b by (simp add: e_def)
  have pos: "0 < m" using big by (cases "m = 0") auto
  from bitLength_bounds[OF pos]
  have mlo: "2 ^ (e + 52) \<le> m" and mhi: "m < 2 ^ (e + 53)" by (simp_all add: be add.commute)
  have m_eq: "m = q * 2 ^ e + r" unfolding q_def r_def by (rule div_mult_mod_eq [symmetric])
  have r_lt: "r < 2 ^ e" by (simp add: r_def)
  have q'_bounds: "q \<le> q'" "q' \<le> q + 1" by (simp_all add: q'_def)
  consider (small) "e < 971" | (edge) "e = 971" | (large) "971 < e" by linarith
  then show ?thesis
  proof cases
    case small
    then have e_le: "e + 53 \<le> 1023" by simp
    have "q' * 2 ^ e \<le> 2 ^ 53 * 2 ^ e"
      using q'_bounds qhi by (intro mult_le_mono1) simp
    also have "\<dots> = (2::nat) ^ (e + 53)" by (simp add: power_add mult.commute)
    also have "\<dots> \<le> 2 ^ 1023" using e_le by (intro power_increasing) simp_all
    finally have no: "q' * 2 ^ e < 2 ^ 1024" by simp
    have "m < 2 ^ 1023"
      using mhi power_increasing[OF e_le, of "2::nat"] by simp
    then have "\<not> 2 ^ 1024 - 2 ^ 970 \<le> m" by simp
    with no rd show ?thesis by simp
  next
    case large
    then have e_ge: "1024 \<le> e + 52" by simp
    have "(2::nat) ^ 1024 \<le> 2 ^ (e + 52)" using e_ge by (intro power_increasing) simp_all
    also have "\<dots> = 2 ^ 52 * 2 ^ e" by (simp add: power_add mult.commute)
    also have "\<dots> \<le> q' * 2 ^ e" using q'_bounds qlo by (intro mult_le_mono1) simp
    finally have yes: "2 ^ 1024 \<le> q' * 2 ^ e" .
    have "(2::nat) ^ 1024 \<le> m"
      using mlo power_increasing[OF e_ge, of "2::nat"] by simp
    then have "2 ^ 1024 - 2 ^ 970 \<le> m" by simp
    with yes rd show ?thesis by simp
  next
    case edge
    define P :: nat where "P = 2 ^ 971"
    define H :: nat where "H = 2 ^ 970"
    have PH: "P = 2 * H" "0 < H" by (simp_all add: P_def H_def)
    have T: "(2::nat) ^ 1024 - 2 ^ 970 = (2 ^ 53 - 1) * P + H" by (simp add: P_def H_def)
    have top: "(2::nat) ^ 1024 = 2 ^ 53 * P" by (simp add: P_def)
    have m_eq': "m = q * P + r" and r_lt': "r < P" using m_eq r_lt edge by (simp_all add: P_def)
    have q'_eq: "q' = (if H < r \<or> (r = H \<and> odd q) then q + 1 else q)"
      using edge by (simp add: q'_def H_def)
    have ovf: "2 ^ 1024 \<le> q' * 2 ^ e \<longleftrightarrow> 2 ^ 53 \<le> q'"
      using edge by (simp add: top P_def)
    show ?thesis
    proof (cases "q = 2 ^ 53 - 1")
      case True
      then have oddq: "odd q" by simp
      have "2 ^ 53 \<le> q' \<longleftrightarrow> H \<le> r" using True oddq by (auto simp add: q'_eq)
      moreover have "(2 ^ 53 - 1) * P + H \<le> m \<longleftrightarrow> H \<le> r" using True m_eq' by simp
      ultimately show ?thesis using rd ovf T by simp
    next
      case False
      with qhi have q_le: "q + 1 \<le> 2 ^ 53 - 1" by simp
      then have "q' < 2 ^ 53" using q'_bounds by simp
      moreover have "m < (2 ^ 53 - 1) * P + H"
      proof -
        have "m < (q + 1) * P" using m_eq' r_lt' by simp
        also have "\<dots> \<le> (2 ^ 53 - 1) * P" using q_le by (intro mult_le_mono1)
        finally show ?thesis by simp
      qed
      ultimately show ?thesis using rd ovf T by simp
    qed
  qed
qed

lemma trim_prefix_aux: "rev (dropWhile P (rev t)) = take (length t - length (takeWhile P (rev t))) t"
  by (simp add: dropWhile_eq_drop rev_drop)

lemma trimStart_trim: "trimStart (trim s) = trim s"
proof -
  define t where "t = dropWhile isWhiteSpace s"
  define k where "k = length t - length (takeWhile isWhiteSpace (rev t))"
  have tr: "trim s = take k t" by (simp add: trim_def t_def k_def trim_prefix_aux)
  show ?thesis
  proof (cases "take k t = []")
    case True
    then show ?thesis by (auto simp add: tr trimStart_def)
  next
    case False
    then have "t \<noteq> []" "0 < k" by auto
    then have "hd (take k t) = hd t" by (cases t; cases k) auto
    moreover have "\<not> isWhiteSpace (hd t)" using \<open>t \<noteq> []\<close> unfolding t_def by (rule hd_dropWhile)
    ultimately show ?thesis using False by (simp add: tr trimStart_def dropWhile_eq_self_iff)
  qed
qed

lemma isFinite_toNumber: "isFinite (toNumber neg m) \<longleftrightarrow> roundToDouble m \<noteq> None"
  by (simp add: toNumber_def split: option.splits)

lemma isFinite_parseInt10_trim:
  "isFinite (parseInt10 (trim s)) \<longleftrightarrow>
     leadingDigits (trim s) \<noteq> [] \<and> decimalValue (leadingDigits (trim s)) < 2 ^ 1024 - 2 ^ 970"
  by (simp only: parseInt10_def trimStart_trim Let_def isFinite_toNumber roundToDouble_None_iff
      isFinite.simps not_le split: if_split) blast

subsection \<open>Endpoint resolution\<close>

text \<open>
  Claim C1, as the script has it.  The script tests the two globals for truth, not for
  presence.  An injected URL that is present and not the empty string is returned
  unchanged.  With the URL absent (or empty) the result is protocol, \<open>//\<close>, hostname,
  \<open>:\<close> and the port, where the port is the injected one when it is present and neither
  zero nor not-a-number, and 8000 otherwise.
\<close>

theorem backendBaseUrl_resolution:
  "(\<forall>u. BACKEND_URL w = Some u \<and> u \<noteq> [] \<longrightarrow> backendBaseUrl w loc = u) \<and>
   (BACKEND_URL w = None \<or> BACKEND_URL w = Some [] \<longrightarrow>
      backendBaseUrl w loc =
        protocol loc @ ''//'' @ hostname loc @ '':'' @
        numberToString (case BACKEND_PORT w of
                          Some p \<Rightarrow> if p = Finite 0 \<or> p = NaN then Finite 8000 else p
                        | None \<Rightarrow> Finite 8000))"
proof -
  have port: "(case BACKEND_PORT w of
                 Some p \<Rightarrow> if truthyNumber p then p else Finite 8000
               | None \<Rightarrow> Finite 8000) =
              (case BACKEND_PORT w of
                 Some p \<Rightarrow> if p = Finite 0 \<or> p = NaN then Finite 8000 else p
               | None \<Rightarrow> Finite 8000)"
  proof (cases "BACKEND_PORT w")
    case None
    then show ?thesis by simp
  next
    case (Some p)
    then show ?thesis by (cases p) simp_all
  qed
  show ?thesis
    by (auto simp add: backendBaseUrl_def Let_def truthyString_def port)
qed

theorem backendBaseUrl_resolution_witness:
  "backendBaseUrl \<lparr>BACKEND_URL = Some ''https://api.example:443'', BACKEND_PORT = None\<rparr>
     \<lparr>protocol = ''http:'', hostname = ''localhost''\<rparr> = ''https://api.example:443'' \<and>
   backendBaseUrl \<lparr>BACKEND_URL = None, BACKEND_PORT = Some (Finite 9000)\<rparr>
     \<lparr>protocol = ''https:'', hostname = ''portal.example''\<rparr> = ''https://portal.example:9000'' \<and>
   backendBaseUrl \<lparr>BACKEND_URL = None, BACKEND_PORT = None\<rparr>
     \<lparr>protocol = ''https:'', hostname = ''portal.example''\<rparr> = ''https://portal.example:8000''"
  using backendBaseUrl_resolution [of "\<lparr>BACKEND_URL = Some ''https://api.example:443'', BACKEND_PORT = None\<rparr>"
       "\<lparr>protocol = ''http:'', hostname = ''localhost''\<rparr>"]
    backendBaseUrl_resolution [of "\<lparr>BACKEND_URL = None, BACKEND_PORT = Some (Finite 9000)\<rparr>"
       "\<lparr>protocol = ''https:'', hostname = ''portal.example''\<rparr>"]
    backendBaseUrl_resolution [of "\<lparr>BACKEND_URL = None, BACKEND_PORT = None\<rparr>"
       "\<lparr>protocol = ''https:'', hostname = ''portal.example''\<rparr>"]
  by (simp add: eval_numbers)

text \<open>
  Claim C1 as stated promises port 0 when the injected port equals 0.  The container start
  value \<open>0\<close> is published by the injector, and the resolver then falls back to 8000.
\<close>

theorem backendBaseUrl_port_zero_counterexample:
  "BACKEND_PORT (configureRuntimeEnv '''' ''0'' freshWindow) = Some (Finite 0) \<and>
   BACKEND_URL (configureRuntimeEnv '''' ''0'' freshWindow) = None \<and>
   resolveBaseUrl_spec (configureRuntimeEnv '''' ''0'' freshWindow)
     \<lparr>protocol = ''https:'', hostname = ''portal.example''\<rparr> = ''https://portal.example:0'' \<and>
   backendBaseUrl (configureRuntimeEnv '''' ''0'' freshWindow)
     \<lparr>protocol = ''https:'', hostname = ''portal.example''\<rparr> = ''https://portal.example:8000''"
  by (simp add: configureRuntimeEnv_def freshWindow_def backendBaseUrl_def resolveBaseUrl_spec_def
      eval_strings eval_numbers)

subsection \<open>Environment Injector\<close>

text \<open>
  Claim C2, as the script has it.  On a window whose port global is unset, the port stays
  absent exactly when the trimmed input is empty, is the placeholder, has no decimal digit
  after an optional sign, or has leading digits whose value rounds to infinity; a published
  port is what \<^verbatim>\<open>parseInt\<close> reads from the trimmed input, so characters after the
  leading digits are ignored.  With port and URL both absent the resolver uses 8000.
\<close>

theorem configureRuntimeEnv_port_absent_iff:
  assumes "BACKEND_PORT w = None"
  shows "(BACKEND_PORT (configureRuntimeEnv urlLiteral portLiteral w) = None \<longleftrightarrow>
            trim portLiteral = [] \<or> trim portLiteral = ''${BACKEND_PORT}'' \<or>
            leadingDigits (trim portLiteral) = [] \<or>
            2 ^ 1024 - 2 ^ 970 \<le> decimalValue (leadingDigits (trim portLiteral))) \<and>
         (\<forall>n. BACKEND_PORT (configureRuntimeEnv urlLiteral portLiteral w) = Some n \<longrightarrow>
            n = parseInt10 (trim portLiteral)) \<and>
         (BACKEND_PORT (configureRuntimeEnv urlLiteral portLiteral w) = None \<and>
          BACKEND_URL (configureRuntimeEnv urlLiteral portLiteral w) = None \<longrightarrow>
            backendBaseUrl (configureRuntimeEnv urlLiteral portLiteral w) loc =
              protocol loc @ ''//'' @ hostname loc @ '':8000'')"
proof -
  let ?w' = "configureRuntimeEnv urlLiteral portLiteral w"
  define big where "big \<longleftrightarrow> 2 ^ 1024 - 2 ^ 970 \<le> decimalValue (leadingDigits (trim portLiteral))"
  have fin: "isFinite (parseInt10 (trim portLiteral)) \<longleftrightarrow>
      leadingDigits (trim portLiteral) \<noteq> [] \<and> \<not> big"
    by (simp only: isFinite_parseInt10_trim not_le big_def)
  have port: "BACKEND_PORT ?w' =
      (if trim portLiteral \<noteq> [] \<and> trim portLiteral \<noteq> ''${BACKEND_PORT}'' \<and>
          isFinite (parseInt10 (trim portLiteral))
       then Some (parseInt10 (trim portLiteral)) else None)"
    using assms
    by (simp add: configureRuntimeEnv_def Let_def truthyString_def placeholderPort_def)
  have absent: "BACKEND_PORT ?w' = None \<longleftrightarrow>
      trim portLiteral = [] \<or> trim portLiteral = ''${BACKEND_PORT}'' \<or>
      leadingDigits (trim portLiteral) = [] \<or> big"
    by (simp add: port fin)
  have published: "\<forall>n. BACKEND_PORT ?w' = Some n \<longrightarrow> n = parseInt10 (trim portLiteral)"
    by (auto simp add: port split: if_splits)
  have eight: "naturalToString 8000 = ''8000''"
    by (simp add: eval_numbers)
  have dflt: "BACKEND_PORT ?w' = None \<and> BACKEND_URL ?w' = None \<longrightarrow>
      backendBaseUrl ?w' loc = protocol loc @ ''//'' @ hostname loc @ '':8000''"
    by (simp add: backendBaseUrl_def eight)
  from absent published dflt show ?thesis
    unfolding big_def by (intro conjI)
qed

theorem configureRuntimeEnv_port_absent_iff_witness:
  "BACKEND_PORT (configureRuntimeEnv '''' ''port'' freshWindow) = None \<and>
   backendBaseUrl (configureRuntimeEnv '''' ''port'' freshWindow)
     \<lparr>protocol = ''https:'', hostname = ''portal.example''\<rparr> = ''https://portal.example:8000''"
proof -
  have p: "BACKEND_PORT freshWindow = None"
    by (simp add: freshWindow_def)
  have t: "trim ''port'' = ''port''" "leadingDigits ''port'' = []"
    by (simp_all add: eval_strings)
  have u: "BACKEND_URL (configureRuntimeEnv '''' ''port'' freshWindow) = None"
    by (simp add: configureRuntimeEnv_def freshWindow_def Let_def eval_strings)
  show ?thesis
    using configureRuntimeEnv_port_absent_iff [OF p, of "''''" "''port''"
        "\<lparr>protocol = ''https:'', hostname = ''portal.example''\<rparr>"] t u
    by simp
qed

text \<open>
  Claim C2 as stated requires the port to be absent for every input that is not a number
  as a whole.  The input \<open>80abc\<close> is not, and port 80 is published.
\<close>

theorem configureRuntimeEnv_port_prefix_counterexample:
  "\<not> wholeInputNumeric_spec ''80abc'' \<and>
   BACKEND_PORT (configureRuntimeEnv '''' ''80abc'' freshWindow) = Some (Finite 80)"
  by (simp add: wholeInputNumeric_spec_def configureRuntimeEnv_def freshWindow_def
      eval_strings eval_numbers)

text \<open>
  Claim C3.  On a window whose two globals are unset: an input that is empty or the
  placeholder after trimming leaves its global absent; a stored URL is the trimmed input,
  differs from the placeholder and is not the empty string; a stored port comes from a
  trimmed input that differs from the placeholder and is a finite Number.
\<close>

theorem configureRuntimeEnv_placeholder_absent:
  assumes "BACKEND_URL w = None" and "BACKEND_PORT w = None"
  shows "(trim urlLiteral = [] \<or> trim urlLiteral = ''${BACKEND_URL}'' \<longrightarrow>
            BACKEND_URL (configureRuntimeEnv urlLiteral portLiteral w) = None) \<and>
         (trim portLiteral = [] \<or> trim portLiteral = ''${BACKEND_PORT}'' \<longrightarrow>
            BACKEND_PORT (configureRuntimeEnv urlLiteral portLiteral w) = None) \<and>
         (\<forall>v. BACKEND_URL (configureRuntimeEnv urlLiteral portLiteral w) = Some v \<longrightarrow>
            v = trim urlLiteral \<and> v \<noteq> ''${BACKEND_URL}'' \<and> v \<noteq> []) \<and>
         (\<forall>n. BACKEND_PORT (configureRuntimeEnv urlLiteral portLiteral w) = Some n \<longrightarrow>
            trim portLiteral \<noteq> ''${BACKEND_PORT}'' \<and> trim portLiteral \<noteq> [] \<and>
            n = parseInt10 (trim portLiteral) \<and> isFinite n)"
  using assms
  by (auto simp add: configureRuntimeEnv_def Let_def truthyString_def placeholderUrl_def
      placeholderPort_def)

theorem configureRuntimeEnv_placeholder_absent_witness:
  "BACKEND_URL (configureRuntimeEnv ''  ${BACKEND_URL} '' ''${BACKEND_PORT}'' freshWindow) = None \<and>
   BACKEND_PORT (configureRuntimeEnv ''  ${BACKEND_URL} '' ''${BACKEND_PORT}'' freshWindow) = None"
proof -
  have u: "BACKEND_URL freshWindow = None" and p: "BACKEND_PORT freshWindow = None"
    by (simp_all add: freshWindow_def)
  have tu: "trim ''  ${BACKEND_URL} '' = ''${BACKEND_URL}''"
    and tp: "trim ''${BACKEND_PORT}'' = ''${BACKEND_PORT}''"
    by (simp_all add: eval_strings)
  show ?thesis
    using configureRuntimeEnv_placeholder_absent [OF u p, of "''  ${BACKEND_URL} ''" "''${BACKEND_PORT}''"]
      tu tp by simp
qed

subsection \<open>URL normalisation\<close>

lemmas eval_url = basicURLParser_def specialAuthority_def hostParser_def portParser_def
  preprocess_def specialSchemes_def lastLabel_def invalidURL_def isAsciiAlpha_def
  isSchemeChar_def asciiLower_def isC0ControlOrSpace_def isTabOrNewline_def isAuthorityEnd_def
  isSlash_def isForbiddenDomainCodePoint_def isDigit_def decimalValue_def digitValue_def
  decimal.simps digitChar_def Let_def

lemma parse443: "basicURLParser ''https://api.example:443/x?y=1'' = Some (Inr \<lparr>origin = ''https://api.example''\<rparr>)"
  by (simp add: eval_url)

lemma parse8443: "basicURLParser ''https://api.example:8443/x?y=1'' = Some (Inr \<lparr>origin = ''https://api.example:8443''\<rparr>)"
  by (simp add: eval_url)

lemma parseNot: "basicURLParser ''not a url'' = Some (Inl invalidURL)"
  by (simp add: eval_url)

lemma followsURLStandard_examplePlatform: "followsURLStandard examplePlatform"
  by (simp add: followsURLStandard_def examplePlatform_def)

text \<open>
  Claim C6, as the platform has it.  \<^verbatim>\<open>normalizeUrl\<close> never fails: when the URL
  constructor accepts the input the result is the origin of the parsed URL, when it throws
  the result is the input itself.  On a platform that follows the URL Standard the origin
  of \<open>https://api.example:443/x?y=1\<close> is \<open>https://api.example\<close>, because parsing drops
  the default port of the scheme; a port that is not the default is kept, and
  \<open>not a url\<close> comes back unchanged.
\<close>

theorem normalizeUrl_origin_or_unchanged:
  "(\<forall>n. newURL P u = Inr n \<longrightarrow> normalizeUrl P u = origin n) \<and>
   (\<forall>e. newURL P u = Inl e \<longrightarrow> normalizeUrl P u = u) \<and>
   (followsURLStandard P \<longrightarrow>
      normalizeUrl P ''https://api.example:443/x?y=1'' = ''https://api.example'' \<and>
      normalizeUrl P ''https://api.example:8443/x?y=1'' = ''https://api.example:8443'' \<and>
      normalizeUrl P ''not a url'' = ''not a url'')"
proof (intro conjI allI impI)
  fix n assume "newURL P u = Inr n"
  then show "normalizeUrl P u = origin n" by (simp add: normalizeUrl_def)
next
  fix e assume "newURL P u = Inl e"
  then show "normalizeUrl P u = u" by (simp add: normalizeUrl_def)
next
  assume "followsURLStandard P"
  then have "newURL P ''https://api.example:443/x?y=1'' = Inr \<lparr>origin = ''https://api.example''\<rparr>"
    using parse443 unfolding followsURLStandard_def by blast
  then show "normalizeUrl P ''https://api.example:443/x?y=1'' = ''https://api.example''"
    by (simp add: normalizeUrl_def)
next
  assume "followsURLStandard P"
  then have "newURL P ''https://api.example:8443/x?y=1'' = Inr \<lparr>origin = ''https://api.example:8443''\<rparr>"
    using parse8443 unfolding followsURLStandard_def by blast
  then show "normalizeUrl P ''https://api.example:8443/x?y=1'' = ''https://api.example:8443''"
    by (simp add: normalizeUrl_def)
next
  assume "followsURLStandard P"
  then have "newURL P ''not a url'' = Inl invalidURL"
    using parseNot unfolding followsURLStandard_def by blast
  then show "normalizeUrl P ''not a url'' = ''not a url''"
    by (simp add: normalizeUrl_def)
qed

theorem normalizeUrl_origin_or_unchanged_witness:
  "followsURLStandard examplePlatform \<and>
   newURL examplePlatform ''https://portal.example:9000'' = Inr \<lparr>origin = ''https://portal.example:9000''\<rparr> \<and>
   normalizeUrl examplePlatform ''https://portal.example:9000'' = ''https://portal.example:9000'' \<and>
   newURL examplePlatform ''//:8000'' = Inl invalidURL \<and>
   normalizeUrl examplePlatform ''//:8000'' = ''//:8000'' \<and>
   normalizeUrl examplePlatform ''https://api.example:443/x?y=1'' = ''https://api.example'' \<and>
   normalizeUrl examplePlatform ''not a url'' = ''not a url''"
proof -
  have a: "newURL examplePlatform ''https://portal.example:9000'' = Inr \<lparr>origin = ''https://portal.example:9000''\<rparr>"
    by (simp add: examplePlatform_def eval_url)
  have b: "newURL examplePlatform ''//:8000'' = Inl invalidURL"
    by (simp add: examplePlatform_def eval_url)
  show ?thesis
    using normalizeUrl_origin_or_unchanged [of examplePlatform "''https://portal.example:9000''"]
      normalizeUrl_origin_or_unchanged [of examplePlatform "''//:8000''"]
      followsURLStandard_examplePlatform a b
    by simp
qed

text \<open>
  Claim C6 as stated gives \<open>https://api.example:443\<close> for the first example.
\<close>

theorem normalizeUrl_default_port_counterexample:
  "normalizeUrl examplePlatform ''https://api.example:443/x?y=1'' = ''https://api.example'' \<and>
   normalizeUrl examplePlatform ''https://api.example:443/x?y=1'' \<noteq> ''https://api.example:443''"
  by (simp add: normalizeUrl_def examplePlatform_def parse443)

subsection \<open>Request pipeline\<close>

lemma string_includes_iff: "string_includes s t \<longleftrightarrow> (\<exists>p q. s = p @ t @ q)"
  by (simp add: string_includes_def sublist_def)

lemma string_includes_empty: "t \<noteq> [] \<Longrightarrow> \<not> string_includes [] t"
  by (simp add: string_includes_def)

lemma fetchFromBackend_response:
  assumes "resolveURL P path base = Inr u" and "fetch u = Inr r"
  shows "fetchFromBackend P base fetch path =
     (if \<not> ok r then
        (case body r of
           Inl e \<Rightarrow> Inl e
         | Inr b \<Rightarrow> Inl (Error (numberToString (Finite (int (status r))) @ '' '' @
                               statusText r @ '': '' @ b)))
      else if (case headers r ''content-type'' of
                 Some c \<Rightarrow> string_includes c ''application/json'' | None \<Rightarrow> False)
      then json_of P r
      else (case body r of Inl e \<Rightarrow> Inl e | Inr t \<Rightarrow> Inr (StringValue t)))"
proof -
  have "(truthyString c \<and> string_includes c ''application/json'') =
        string_includes c ''application/json''" for c
    using string_includes_empty [of "''application/json''"]
    by (cases "c = []") (auto simp add: truthyString_def)
  then show ?thesis
    using assms by (simp add: fetchFromBackend_def text_of_def Let_def split: option.split)
qed

text \<open>
  Claim C4.  When the network answers with a response whose status lies outside 200 to
  299, the promise of \<^verbatim>\<open>fetchFromBackend\<close> is rejected whatever the body is, and when
  the body text can be read the error message is the status, a space, the status text, a
  colon, a space and the body text, so it contains each of the three.  The witness is the
  example of the specification: status 404 with body \<open>not found\<close>.
\<close>

theorem fetchFromBackend_failure_status:
  assumes "resolveURL P path base = Inr u" and "fetch u = Inr r"
    and "status r < 200 \<or> 299 < status r"
  shows "isl (fetchFromBackend P base fetch path) \<and>
         (\<forall>b. body r = Inr b \<longrightarrow>
            (\<exists>e. fetchFromBackend P base fetch path = Inl (Error e) \<and>
                 e = numberToString (Finite (int (status r))) @ '' '' @
                     statusText r @ '': '' @ b \<and>
                 string_includes e (numberToString (Finite (int (status r)))) \<and>
                 string_includes e (statusText r) \<and>
                 string_includes e b))"
proof -
  have nok: "\<not> ok r" using assms(3) by (auto simp add: ok_def)
  let ?n = "numberToString (Finite (int (status r)))"
  have res: "fetchFromBackend P base fetch path =
      (case body r of
         Inl e \<Rightarrow> Inl e
       | Inr b \<Rightarrow> Inl (Error (?n @ '' '' @ statusText r @ '': '' @ b)))"
    using fetchFromBackend_response [where fetch = fetch, OF assms(1,2)] nok by simp
  have rejected: "isl (fetchFromBackend P base fetch path)"
    by (simp add: res split: sum.split)
  have parts: "string_includes (?n @ '' '' @ statusText r @ '': '' @ b) ?n \<and>
      string_includes (?n @ '' '' @ statusText r @ '': '' @ b) (statusText r) \<and>
      string_includes (?n @ '' '' @ statusText r @ '': '' @ b) b" for b
  proof (intro conjI)
    show "string_includes (?n @ '' '' @ statusText r @ '': '' @ b) ?n"
      unfolding string_includes_iff by (rule exI [of _ "[]"]) simp
    show "string_includes (?n @ '' '' @ statusText r @ '': '' @ b) (statusText r)"
      unfolding string_includes_iff by (rule exI [of _ "?n @ '' ''"]) simp
    show "string_includes (?n @ '' '' @ statusText r @ '': '' @ b) b"
      unfolding string_includes_iff
      by (rule exI [of _ "?n @ '' '' @ statusText r @ '': ''"]) simp
  qed
  show ?thesis
    using rejected parts by (simp add: res)
qed

theorem fetchFromBackend_failure_status_witness:
  "fetchFromBackend examplePlatform ''https://portal.example:9000'' (\<lambda>u. Inr notFound) ''/health''
     = Inl (Error ''404 Not Found: not found'') \<and>
   string_includes ''404 Not Found: not found'' ''404'' \<and>
   string_includes ''404 Not Found: not found'' ''not found''"
proof -
  have u: "resolveURL examplePlatform ''/health'' ''https://portal.example:9000''
             = Inr ''https://portal.example:9000/health''"
    by (simp add: examplePlatform_def eval_url)
  have r: "(\<lambda>u. Inr notFound) ''https://portal.example:9000/health'' = Inr notFound"
    by simp
  have s: "status notFound < 200 \<or> 299 < status notFound"
    by (simp add: notFound_def)
  have n: "numberToString (Finite (int (status notFound))) = ''404''"
    by (simp add: notFound_def eval_numbers)
  have b: "body notFound = Inr ''not found''" "statusText notFound = ''Not Found''"
    by (simp_all add: notFound_def)
  show ?thesis
    using fetchFromBackend_failure_status [where fetch = "\<lambda>u. Inr notFound", OF u r s] n b by auto
qed

text \<open>
  Claim C5.  For a response with a status from 200 to 299: when the content type contains
  \<open>application/json\<close> the promise settles to what parsing the body as JSON yields, the
  parsed payload whenever the body parses; when the header is missing or does not contain
  it, the promise resolves to the body text unchanged.
\<close>

theorem fetchFromBackend_success_payload:
  assumes "resolveURL P path base = Inr u" and "fetch u = Inr r"
    and "200 \<le> status r" and "status r \<le> 299"
  shows "(\<forall>c. headers r ''content-type'' = Some c \<and> string_includes c ''application/json'' \<longrightarrow>
            fetchFromBackend P base fetch path = json_of P r \<and>
            (\<forall>b v. body r = Inr b \<and> jsonParse P b = Inr v \<longrightarrow>
               fetchFromBackend P base fetch path = Inr v)) \<and>
         (headers r ''content-type'' = None \<or>
          (\<exists>c. headers r ''content-type'' = Some c \<and> \<not> string_includes c ''application/json'') \<longrightarrow>
            (\<forall>b. body r = Inr b \<longrightarrow>
               fetchFromBackend P base fetch path = Inr (StringValue b)))"
proof -
  have isok: "ok r" using assms(3,4) by (simp add: ok_def)
  have res: "fetchFromBackend P base fetch path =
      (if (case headers r ''content-type'' of
             Some c \<Rightarrow> string_includes c ''application/json'' | None \<Rightarrow> False)
       then json_of P r
       else (case body r of Inl e \<Rightarrow> Inl e | Inr t \<Rightarrow> Inr (StringValue t)))"
    using fetchFromBackend_response [where fetch = fetch, OF assms(1,2)] isok by simp
  show ?thesis
    by (auto simp add: res json_of_def)
qed

theorem fetchFromBackend_success_payload_witness:
  "fetchFromBackend examplePlatform ''https://portal.example:9000'' (\<lambda>u. Inr okJson) ''/health''
     = Inr (Structured ''status: ok'') \<and>
   fetchFromBackend examplePlatform ''https://portal.example:9000'' (\<lambda>u. Inr okText) ''/health''
     = Inr (StringValue ''{\"status\":\"ok\"}'')"
proof -
  have u: "resolveURL examplePlatform ''/health'' ''https://portal.example:9000''
             = Inr ''https://portal.example:9000/health''"
    by (simp add: examplePlatform_def eval_url)
  have rj: "(\<lambda>u. Inr okJson) ''https://portal.example:9000/health'' = Inr okJson"
    and rt: "(\<lambda>u. Inr okText) ''https://portal.example:9000/health'' = Inr okText"
    by simp_all
  have sj: "200 \<le> status okJson" "status okJson \<le> 299"
    and st: "200 \<le> status okText" "status okText \<le> 299"
    by (simp_all add: okJson_def okText_def)
  have hj: "headers okJson ''content-type'' = Some ''application/json; charset=utf-8''"
    and ht: "headers okText ''content-type'' = Some ''text/plain''"
    by (simp_all add: okJson_def okText_def)
  have ij: "string_includes ''application/json; charset=utf-8'' ''application/json''"
    by (simp add: string_includes_def)
  have it: "\<not> string_includes ''text/plain'' ''application/json''"
    by code_simp
  have bj: "body okJson = Inr ''{\"status\":\"ok\"}''"
    and bt: "body okText = Inr ''{\"status\":\"ok\"}''"
    by (simp_all add: okJson_def okText_def)
  have pj: "jsonParse examplePlatform ''{\"status\":\"ok\"}'' = Inr (Structured ''status: ok'')"
    by (simp add: examplePlatform_def)
  show ?thesis
    using fetchFromBackend_success_payload [where fetch = "\<lambda>u. Inr okJson", OF u rj sj]
      fetchFromBackend_success_payload [where fetch = "\<lambda>u. Inr okText", OF u rt st]
      hj ht ij it bj bt pj
    by (simp add: json_of_def)
qed

subsection \<open>Action handlers\<close>

lemma isFinite_parseInt10:
  "isFinite (parseInt10 v) \<longleftrightarrow>
     leadingDigits (trimStart v) \<noteq> [] \<and>
     decimalValue (leadingDigits (trimStart v)) < 2 ^ 1024 - 2 ^ 970"
  by (simp only: parseInt10_def Let_def isFinite_toNumber roundToDouble_None_iff
      isFinite.simps not_le split: if_split) blast

lemma results_displayResult:
  "results (displayResult P c payload isError s) =
     (results s)(c := \<lparr>classList = toggle ''error'' isError (classList (results s c)),
                       textContent = (case payload of StringValue t \<Rightarrow> t
                                      | Structured j \<Rightarrow> jsonStringify P j)\<rparr>)"
  by (simp add: displayResult_def)

lemma displayResult_other [simp]:
  "invoked (displayResult P c payload isError s) = invoked s"
  "pending (displayResult P c payload isError s) = pending s"
  "c' \<noteq> c \<Longrightarrow> results (displayResult P c payload isError s) c' = results s c'"
  by (simp_all add: displayResult_def)

lemma callFetchFromBackend_simps [simp]:
  "results (callFetchFromBackend a path s) = results s"
  "invoked (callFetchFromBackend a path s) = invoked s @ [path]"
  "pending (callFetchFromBackend a path s) = pending s @ [(a, path)]"
  by (simp_all add: callFetchFromBackend_def)

text \<open>
  Claim C7, as the script has it.  The submit handler does not call
  \<^verbatim>\<open>fetchFromBackend\<close> exactly when the field value, after leading white space and an
  optional sign, does not start with a decimal digit, or its leading digits denote a value
  that rounds to infinity; it then shows the validation message with the error class in
  the open-items result element at once and leaves no call pending.
\<close>

theorem openItemsSubmit_validation:
  "(invoked (step P base s (SubmitOpenItems v)) = invoked s \<longleftrightarrow>
      leadingDigits (trimStart v) = [] \<or>
      2 ^ 1024 - 2 ^ 970 \<le> decimalValue (leadingDigits (trimStart v))) \<and>
   (leadingDigits (trimStart v) = [] \<or>
    2 ^ 1024 - 2 ^ 970 \<le> decimalValue (leadingDigits (trimStart v)) \<longrightarrow>
      pending (step P base s (SubmitOpenItems v)) = pending s \<and>
      textContent (results (step P base s (SubmitOpenItems v)) openItemsResult) = invalidOrganization \<and>
      ''error'' \<in> set (classList (results (step P base s (SubmitOpenItems v)) openItemsResult)))"
proof -
  define bad where "bad \<longleftrightarrow> leadingDigits (trimStart v) = [] \<or>
      2 ^ 1024 - 2 ^ 970 \<le> decimalValue (leadingDigits (trimStart v))"
  have fin: "isFinite (parseInt10 v) \<longleftrightarrow> \<not> bad"
    unfolding bad_def isFinite_parseInt10 by (simp only: not_le de_Morgan_disj not_not)
  have inv: "invoked (step P base s (SubmitOpenItems v)) = invoked s \<longleftrightarrow> bad"
    by (simp add: openItemsSubmit_def Let_def fin)
  have rest: "bad \<longrightarrow>
      pending (step P base s (SubmitOpenItems v)) = pending s \<and>
      textContent (results (step P base s (SubmitOpenItems v)) openItemsResult) = invalidOrganization \<and>
      ''error'' \<in> set (classList (results (step P base s (SubmitOpenItems v)) openItemsResult))"
    by (simp add: openItemsSubmit_def Let_def fin results_displayResult toggle_def)
  from inv rest show ?thesis unfolding bad_def by (intro conjI)
qed

theorem openItemsSubmit_validation_witness:
  "invoked (step examplePlatform ''https://portal.example:9000'' blankPage (SubmitOpenItems ''abc'')) = [] \<and>
   pending (step examplePlatform ''https://portal.example:9000'' blankPage (SubmitOpenItems ''abc'')) = [] \<and>
   results (step examplePlatform ''https://portal.example:9000'' blankPage (SubmitOpenItems ''abc''))
     openItemsResult = \<lparr>classList = [''error''], textContent = invalidOrganization\<rparr>"
proof -
  have l: "leadingDigits (trimStart ''abc'') = []"
    by (simp add: eval_strings)
  have c: "classList (results (step examplePlatform ''https://portal.example:9000'' blankPage
      (SubmitOpenItems ''abc'')) openItemsResult) = [''error'']"
    by (simp add: openItemsSubmit_def Let_def parseInt10_def l results_displayResult toggle_def
        blankPage_def blankElement_def)
  have e: "x = \<lparr>classList = classList x, textContent = textContent x\<rparr>" for x :: element
    by simp
  show ?thesis
    using openItemsSubmit_validation [of examplePlatform "''https://portal.example:9000''" blankPage "''abc''"]
      l c e [of "results (step examplePlatform ''https://portal.example:9000'' blankPage
      (SubmitOpenItems ''abc'')) openItemsResult"]
    by (simp add: blankPage_def)
qed

text \<open>
  Claim C7 as stated covers every value that is not a number; \<open>12abc\<close> is not, and the
  pipeline is called for organisation 12.
\<close>

theorem openItemsSubmit_prefix_counterexample:
  "\<not> wholeInputNumeric_spec ''12abc'' \<and>
   invoked (step examplePlatform ''https://portal.example:9000'' blankPage (SubmitOpenItems ''12abc''))
     = [''/invoices/open?organization_id=12'']"
  by (simp add: wholeInputNumeric_spec_def openItemsSubmit_def Let_def blankPage_def
      eval_strings eval_numbers)

lemma settled_frame:
  "c \<noteq> healthResult \<Longrightarrow> results (healthSettled P outcome s) c = results s c"
  "c \<noteq> openItemsResult \<Longrightarrow> results (openItemsSettled P outcome s) c = results s c"
  "c \<noteq> consoleResult \<Longrightarrow> results (consoleSettled P outcome s) c = results s c"
  by (simp_all add: healthSettled_def openItemsSettled_def consoleSettled_def split: sum.split)

lemma settled_error:
  "''error'' \<in> set (classList (results (healthSettled P (Inl err) s) healthResult))"
  "''error'' \<in> set (classList (results (openItemsSettled P (Inl err) s) openItemsResult))"
  "''error'' \<in> set (classList (results (consoleSettled P (Inl err) s) consoleResult))"
  "textContent (results (healthSettled P (Inl err) s) healthResult) = message err"
  "textContent (results (openItemsSettled P (Inl err) s) openItemsResult) = message err"
  "textContent (results (consoleSettled P (Inl err) s) consoleResult) = message err"
  by (simp_all add: healthSettled_def openItemsSettled_def consoleSettled_def
      results_displayResult toggle_def)

lemma step_frame:
  assumes "actionOf s e = Some a" and "c \<noteq> containerOf a"
  shows "results (step P base s e) c = results s c"
proof (cases e)
  case Click
  with assms show ?thesis by (auto simp add: healthClick_def)
next
  case (SubmitOpenItems v)
  with assms show ?thesis by (auto simp add: openItemsSubmit_def Let_def)
next
  case (SubmitConsole v)
  with assms show ?thesis by (auto simp add: consoleSubmit_def Let_def)
next
  case (Settle i fetch)
  with assms have i: "i < length (pending s)" and a: "fst (pending s ! i) = a"
    by (auto split: if_splits)
  show ?thesis
  proof (cases a)
    case HealthCheck
    with assms(2) Settle i a show ?thesis by (simp add: settle_def Let_def settled_frame)
  next
    case OpenItems
    with assms(2) Settle i a show ?thesis by (simp add: settle_def Let_def settled_frame)
  next
    case ConsoleQuery
    with assms(2) Settle i a show ?thesis by (simp add: settle_def Let_def settled_frame)
  qed
qed

lemma step_failure_shown:
  assumes "actionOf s e = Some a" and "failureOf P base s e"
  shows "''error'' \<in> set (classList (results (step P base s e) (containerOf a)))"
proof (cases e)
  case (Settle i fetch)
  with assms have i: "i < length (pending s)" and a: "fst (pending s ! i) = a"
    and f: "isl (fetchFromBackend P base fetch (snd (pending s ! i)))"
    by (auto split: if_splits)
  from f obtain err where err: "fetchFromBackend P base fetch (snd (pending s ! i)) = Inl err"
    by (cases "fetchFromBackend P base fetch (snd (pending s ! i))") auto
  show ?thesis
    using Settle i a err by (cases a) (simp_all add: settle_def Let_def settled_error)
qed (use assms in auto)

lemma user_event_independent:
  assumes "isUserEvent t" and "results s' c = results s c" and "actionOf s t = Some b"
    and "c = containerOf b"
  shows "results (step P base s' t) c = results (step P base s t) c \<and>
         drop (length (invoked s')) (invoked (step P base s' t)) =
         drop (length (invoked s)) (invoked (step P base s t))"
proof (cases t)
  case Click
  with assms show ?thesis by (auto simp add: healthClick_def results_displayResult)
next
  case (SubmitOpenItems v)
  with assms show ?thesis by (auto simp add: openItemsSubmit_def Let_def results_displayResult)
next
  case (SubmitConsole v)
  with assms show ?thesis by (auto simp add: consoleSubmit_def Let_def results_displayResult)
next
  case (Settle i fetch)
  with assms show ?thesis by simp
qed

text \<open>
  Claim C8.  A turn of the event loop that belongs to one action, whatever its outcome,
  leaves the result elements of the other actions as they were; a failed outcome is shown
  with the error class in the action's own element; and a user event of another action
  afterwards has the same effect on that action's element, and calls the pipeline with the
  same path, as it would have had without the first turn.
\<close>

theorem actions_isolated:
  assumes "actionOf s e = Some a"
  shows "(\<forall>c. c \<noteq> containerOf a \<longrightarrow> results (step P base s e) c = results s c) \<and>
         (failureOf P base s e \<longrightarrow>
            ''error'' \<in> set (classList (results (step P base s e) (containerOf a)))) \<and>
         (\<forall>t b. isUserEvent t \<and> actionOf s t = Some b \<and> b \<noteq> a \<longrightarrow>
            results (step P base (step P base s e) t) (containerOf b) =
              results (step P base s t) (containerOf b) \<and>
            drop (length (invoked (step P base s e))) (invoked (step P base (step P base s e) t)) =
              drop (length (invoked s)) (invoked (step P base s t)))"
proof (intro conjI allI impI)
  fix c assume "c \<noteq> containerOf a"
  with assms show "results (step P base s e) c = results s c" by (rule step_frame)
next
  assume "failureOf P base s e"
  with assms show "''error'' \<in> set (classList (results (step P base s e) (containerOf a)))"
    by (rule step_failure_shown)
next
  fix t b assume t: "isUserEvent t \<and> actionOf s t = Some b \<and> b \<noteq> a"
  then have ne: "containerOf b \<noteq> containerOf a" by (cases a; cases b) auto
  have same: "results (step P base s e) (containerOf b) = results s (containerOf b)"
    using assms ne by (rule step_frame)
  from t user_event_independent [of t "step P base s e" "containerOf b" s b P base] same
  show "results (step P base (step P base s e) t) (containerOf b) =
          results (step P base s t) (containerOf b)"
    and "drop (length (invoked (step P base s e))) (invoked (step P base (step P base s e) t)) =
          drop (length (invoked s)) (invoked (step P base s t))"
    by auto
qed

theorem actions_isolated_witness:
  "actionOf (healthClick examplePlatform blankPage) (Settle 0 offline) = Some HealthCheck \<and>
   failureOf examplePlatform ''https://portal.example:8000''
     (healthClick examplePlatform blankPage) (Settle 0 offline) \<and>
   results (step examplePlatform ''https://portal.example:8000''
              (healthClick examplePlatform blankPage) (Settle 0 offline)) openItemsResult =
     blankElement \<and>
   results (step examplePlatform ''https://portal.example:8000''
              (healthClick examplePlatform blankPage) (Settle 0 offline)) consoleResult =
     blankElement \<and>
   ''error'' \<in> set (classList (results (step examplePlatform ''https://portal.example:8000''
              (healthClick examplePlatform blankPage) (Settle 0 offline)) healthResult)) \<and>
   results (step examplePlatform ''https://portal.example:8000''
              (step examplePlatform ''https://portal.example:8000''
                 (healthClick examplePlatform blankPage) (Settle 0 offline))
              (SubmitConsole ''/docs'')) consoleResult =
     \<lparr>classList = [], textContent = loading\<rparr>"
proof -
  let ?s = "healthClick examplePlatform blankPage"
  let ?base = "''https://portal.example:8000''"
  have a: "actionOf ?s (Settle 0 offline) = Some HealthCheck"
    by (simp add: healthClick_def blankPage_def)
  have u: "resolveURL examplePlatform ''/health'' ?base = Inr ''https://portal.example:8000/health''"
    by (simp add: examplePlatform_def eval_url)
  have f: "failureOf examplePlatform ?base ?s (Settle 0 offline)"
    by (simp add: healthClick_def blankPage_def fetchFromBackend_def u offline_def)
  have o: "results ?s openItemsResult = blankElement" "results ?s consoleResult = blankElement"
    by (simp_all add: healthClick_def blankPage_def)
  have c: "results (step examplePlatform ?base ?s (SubmitConsole ''/docs'')) consoleResult =
      \<lparr>classList = [], textContent = loading\<rparr>"
    by (simp add: consoleSubmit_def Let_def truthyString_def results_displayResult toggle_def
        healthClick_def blankPage_def blankElement_def)
  have t: "isUserEvent (SubmitConsole ''/docs'')"
    "actionOf ?s (SubmitConsole ''/docs'') = Some ConsoleQuery"
    by simp_all
  note iso = actions_isolated [OF a, of examplePlatform ?base]
  from iso have fr: "results (step examplePlatform ?base ?s (Settle 0 offline)) openItemsResult =
      results ?s openItemsResult"
    "results (step examplePlatform ?base ?s (Settle 0 offline)) consoleResult =
      results ?s consoleResult"
    by simp_all
  from iso f have er: "''error'' \<in> set (classList (results
      (step examplePlatform ?base ?s (Settle 0 offline)) healthResult))"
    by simp
  from iso t have ind: "results (step examplePlatform ?base
      (step examplePlatform ?base ?s (Settle 0 offline)) (SubmitConsole ''/docs'')) consoleResult =
      results (step examplePlatform ?base ?s (SubmitConsole ''/docs'')) consoleResult"
    by (metis action.distinct(3) containerOf.simps(3))
  show ?thesis
    using a f er by (simp only: fr o ind c simp_thms)
qed

text \<open>
  Claim C9.  Submitting the console form with an empty path (the only string that fails
  the truth test) calls \<^verbatim>\<open>fetchFromBackend\<close> with the path \<open>/\<close>: no error is shown, the
  loading text is, and when the call settles the console element shows the outcome of the
  pipeline for \<open>/\<close>.
\<close>

theorem consoleSubmit_default_path:
  "invoked (step P base s (SubmitConsole [])) = invoked s @ [''/''] \<and>
   pending (step P base s (SubmitConsole [])) = pending s @ [(ConsoleQuery, ''/'')] \<and>
   textContent (results (step P base s (SubmitConsole [])) consoleResult) = loading \<and>
   ''error'' \<notin> set (classList (results (step P base s (SubmitConsole [])) consoleResult)) \<and>
   results (step P base (step P base s (SubmitConsole [])) (Settle (length (pending s)) fetch)) =
     results (consoleSettled P (fetchFromBackend P base fetch ''/'')
                (step P base s (SubmitConsole [])))"
  by (simp add: consoleSubmit_def Let_def truthyString_def results_displayResult toggle_def
      settle_def removeAt_def consoleSettled_def split: sum.split)

theorem consoleSubmit_default_path_witness:
  "invoked (step examplePlatform ''https://portal.example:8000'' blankPage (SubmitConsole '''')) = [''/''] \<and>
   pending (step examplePlatform ''https://portal.example:8000'' blankPage (SubmitConsole ''''))
     = [(ConsoleQuery, ''/'')]"
  using consoleSubmit_default_path [of examplePlatform "''https://portal.example:8000''" blankPage]
  by (simp add: blankPage_def)

lemma fetchFromBackend_unresolved:
  "resolveURL P path base = Inl e \<Longrightarrow> fetchFromBackend P base fetch path = Inl e"
  by (simp add: fetchFromBackend_def)

lemma fetchFromBackend_rejected:
  "resolveURL P path base = Inr u \<Longrightarrow> fetch u = Inl e \<Longrightarrow>
     fetchFromBackend P base fetch path = Inl e"
  by (simp add: fetchFromBackend_def)

lemma fetchFromBackend_only_at:
  "resolveURL P path base = Inr u \<Longrightarrow> fetch u = fetch' u \<Longrightarrow>
     fetchFromBackend P base fetch path = fetchFromBackend P base fetch' path"
  by (simp add: fetchFromBackend_def)

lemma initialise_parts:
  "fst (initialise P w loc fullYear doc) = backendBaseUrl w loc"
  "invoked (snd (initialise P w loc fullYear doc)) = [''/health'']"
  "pending (snd (initialise P w loc fullYear doc)) = [(HealthCheck, ''/health'')]"
  "textContent (results (snd (initialise P w loc fullYear doc)) healthResult) = loading"
  "results (snd (initialise P w loc fullYear doc)) openItemsResult = resultElements doc openItemsResult"
  "results (snd (initialise P w loc fullYear doc)) consoleResult = resultElements doc consoleResult"
  by (simp_all add: initialise_def Let_def healthClick_def results_displayResult)

lemma initialise_settle:
  "results (step P (backendBaseUrl w loc) (snd (initialise P w loc fullYear doc)) (Settle 0 fetch)) =
     results (healthSettled P (fetchFromBackend P (backendBaseUrl w loc) fetch ''/health'')
                (snd (initialise P w loc fullYear doc)))"
  by (simp add: initialise_def Let_def healthClick_def results_displayResult settle_def
      removeAt_def healthSettled_def split: sum.split)

text \<open>
  Claim C10, as the script has it.  Running the script calls \<^verbatim>\<open>fetchFromBackend\<close>
  exactly once, with the path \<open>/health\<close>, and leaves that call pending with the loading
  text in the health element; the other two result elements are untouched.  When
  \<open>/health\<close> resolves against the base URL to a URL \<open>u\<close>, the request goes to \<open>u\<close>
  and nowhere else: a rejection of the network at \<open>u\<close> is the outcome of the call, and
  the outcome depends on the network at \<open>u\<close> only.  When the base URL does not parse,
  \<^verbatim>\<open>new URL\<close> throws before \<^verbatim>\<open>fetch\<close> is reached: whatever the network would answer,
  the outcome is that error, shown with the error class in the health element.
\<close>

theorem initialise_health_request:
  "fst (initialise P w loc fullYear doc) = backendBaseUrl w loc \<and>
   invoked (snd (initialise P w loc fullYear doc)) = [''/health''] \<and>
   pending (snd (initialise P w loc fullYear doc)) = [(HealthCheck, ''/health'')] \<and>
   textContent (results (snd (initialise P w loc fullYear doc)) healthResult) = loading \<and>
   results (snd (initialise P w loc fullYear doc)) openItemsResult = resultElements doc openItemsResult \<and>
   results (snd (initialise P w loc fullYear doc)) consoleResult = resultElements doc consoleResult \<and>
   (\<forall>fetch.
      results (step P (backendBaseUrl w loc) (snd (initialise P w loc fullYear doc)) (Settle 0 fetch)) =
        results (healthSettled P (fetchFromBackend P (backendBaseUrl w loc) fetch ''/health'')
                   (snd (initialise P w loc fullYear doc)))) \<and>
   (\<forall>u. resolveURL P ''/health'' (backendBaseUrl w loc) = Inr u \<longrightarrow>
      (\<forall>fetch e. fetch u = Inl e \<longrightarrow>
         fetchFromBackend P (backendBaseUrl w loc) fetch ''/health'' = Inl e) \<and>
      (\<forall>fetch fetch'. fetch u = fetch' u \<longrightarrow>
         fetchFromBackend P (backendBaseUrl w loc) fetch ''/health'' =
         fetchFromBackend P (backendBaseUrl w loc) fetch' ''/health'')) \<and>
   (\<forall>e. resolveURL P ''/health'' (backendBaseUrl w loc) = Inl e \<longrightarrow>
      (\<forall>fetch.
         fetchFromBackend P (backendBaseUrl w loc) fetch ''/health'' = Inl e \<and>
         textContent (results (step P (backendBaseUrl w loc)
            (snd (initialise P w loc fullYear doc)) (Settle 0 fetch)) healthResult) = message e \<and>
         ''error'' \<in> set (classList (results (step P (backendBaseUrl w loc)
            (snd (initialise P w loc fullYear doc)) (Settle 0 fetch)) healthResult))))"
proof -
  let ?base = "backendBaseUrl w loc"
  let ?s = "snd (initialise P w loc fullYear doc)"
  have resolved: "\<forall>u. resolveURL P ''/health'' ?base = Inr u \<longrightarrow>
      (\<forall>fetch e. fetch u = Inl e \<longrightarrow> fetchFromBackend P ?base fetch ''/health'' = Inl e) \<and>
      (\<forall>fetch fetch'. fetch u = fetch' u \<longrightarrow>
         fetchFromBackend P ?base fetch ''/health'' = fetchFromBackend P ?base fetch' ''/health'')"
    using fetchFromBackend_rejected [of P "''/health''" ?base]
      fetchFromBackend_only_at [of P "''/health''" ?base]
    by blast
  have unresolved: "\<forall>e. resolveURL P ''/health'' ?base = Inl e \<longrightarrow>
      (\<forall>fetch.
         fetchFromBackend P ?base fetch ''/health'' = Inl e \<and>
         textContent (results (step P ?base ?s (Settle 0 fetch)) healthResult) = message e \<and>
         ''error'' \<in> set (classList (results (step P ?base ?s (Settle 0 fetch)) healthResult)))"
  proof (intro allI impI)
    fix e fetch assume r: "resolveURL P ''/health'' ?base = Inl e"
    have o: "fetchFromBackend P ?base fetch ''/health'' = Inl e"
      using r by (rule fetchFromBackend_unresolved)
    show "fetchFromBackend P ?base fetch ''/health'' = Inl e \<and>
         textContent (results (step P ?base ?s (Settle 0 fetch)) healthResult) = message e \<and>
         ''error'' \<in> set (classList (results (step P ?base ?s (Settle 0 fetch)) healthResult))"
      by (simp only: initialise_settle o settled_error simp_thms)
  qed
  from initialise_parts [of P w loc fullYear doc] initialise_settle [of P w loc fullYear doc]
    resolved unresolved
  show ?thesis by (intro conjI allI) blast+
qed

theorem initialise_health_request_witness:
  "fst (initialise examplePlatform freshWindow portalLocation 2025 blankDocument)
     = ''https://portal.example:8000'' \<and>
   invoked (snd (initialise examplePlatform freshWindow portalLocation 2025 blankDocument))
     = [''/health''] \<and>
   resolveURL examplePlatform ''/health'' ''https://portal.example:8000''
     = Inr ''https://portal.example:8000/health'' \<and>
   fetchFromBackend examplePlatform ''https://portal.example:8000'' offline ''/health''
     = Inl (TypeError ''Failed to fetch'')"
proof -
  have b: "backendBaseUrl freshWindow portalLocation = ''https://portal.example:8000''"
    by (simp add: backendBaseUrl_def freshWindow_def portalLocation_def eval_numbers)
  have u: "resolveURL examplePlatform ''/health'' ''https://portal.example:8000''
             = Inr ''https://portal.example:8000/health''"
    by (simp add: examplePlatform_def eval_url)
  have f: "offline ''https://portal.example:8000/health'' = Inl (TypeError ''Failed to fetch'')"
    by (simp add: offline_def)
  note t = initialise_health_request [of examplePlatform freshWindow portalLocation 2025 blankDocument]
  from t have i: "fst (initialise examplePlatform freshWindow portalLocation 2025 blankDocument)
       = backendBaseUrl freshWindow portalLocation"
    "invoked (snd (initialise examplePlatform freshWindow portalLocation 2025 blankDocument))
       = [''/health'']"
    by simp_all
  from t u f have o: "fetchFromBackend examplePlatform ''https://portal.example:8000'' offline ''/health''
       = Inl (TypeError ''Failed to fetch'')"
    unfolding b by blast
  show ?thesis using i u o by (simp only: b simp_thms)
qed

text \<open>
  Claim C10 as stated has a request to \<open>/health\<close> issued on every page load.  With the
  injected URL \<open>not a url\<close> the pipeline is called, but the call fails with the error of
  \<^verbatim>\<open>new URL\<close> both on a network that answers every request with status 200 and on one
  that rejects every request: no request is issued.
\<close>

theorem initialise_health_invalid_base_counterexample:
  "fst (initialise examplePlatform (configureRuntimeEnv ''not a url'' ''8000'' freshWindow)
          portalLocation 2025 blankDocument) = ''not a url'' \<and>
   invoked (snd (initialise examplePlatform (configureRuntimeEnv ''not a url'' ''8000'' freshWindow)
                   portalLocation 2025 blankDocument)) = [''/health''] \<and>
   resolveURL examplePlatform ''/health'' ''not a url'' = Inl (TypeError ''Invalid URL'') \<and>
   fetchFromBackend examplePlatform ''not a url'' answersOkText ''/health''
     = Inl (TypeError ''Invalid URL'') \<and>
   fetchFromBackend examplePlatform ''not a url'' offline ''/health''
     = Inl (TypeError ''Invalid URL'') \<and>
   results (step examplePlatform ''not a url''
              (snd (initialise examplePlatform (configureRuntimeEnv ''not a url'' ''8000'' freshWindow)
                      portalLocation 2025 blankDocument))
              (Settle 0 answersOkText)) healthResult
     = \<lparr>classList = [''error''], textContent = ''Invalid URL''\<rparr>"
proof -
  have w: "configureRuntimeEnv ''not a url'' ''8000'' freshWindow
      = \<lparr>BACKEND_URL = Some ''not a url'', BACKEND_PORT = Some (Finite 8000)\<rparr>"
    by (simp add: configureRuntimeEnv_def freshWindow_def Let_def eval_strings eval_numbers)
  have b: "backendBaseUrl \<lparr>BACKEND_URL = Some ''not a url'', BACKEND_PORT = Some (Finite 8000)\<rparr>
      portalLocation = ''not a url''"
    by (simp add: backendBaseUrl_def truthyString_def)
  have r: "resolveURL examplePlatform ''/health'' ''not a url'' = Inl (TypeError ''Invalid URL'')"
    by (simp add: examplePlatform_def eval_url)
  have o: "fetchFromBackend examplePlatform ''not a url'' fetch ''/health''
      = Inl (TypeError ''Invalid URL'')" for fetch
    using r by (rule fetchFromBackend_unresolved)
  have i: "fst (initialise examplePlatform \<lparr>BACKEND_URL = Some ''not a url'', BACKEND_PORT = Some (Finite 8000)\<rparr>
      portalLocation 2025 blankDocument) = ''not a url''"
    "invoked (snd (initialise examplePlatform \<lparr>BACKEND_URL = Some ''not a url'', BACKEND_PORT = Some (Finite 8000)\<rparr>
      portalLocation 2025 blankDocument)) = [''/health'']"
    by (simp_all add: initialise_parts b)
  have d: "results (step examplePlatform ''not a url''
      (snd (initialise examplePlatform \<lparr>BACKEND_URL = Some ''not a url'', BACKEND_PORT = Some (Finite 8000)\<rparr>
         portalLocation 2025 blankDocument))
      (Settle 0 answersOkText)) healthResult = \<lparr>classList = [''error''], textContent = ''Invalid URL''\<rparr>"
    by (simp add: initialise_def Let_def healthClick_def settle_def removeAt_def o
        healthSettled_def results_displayResult toggle_def blankDocument_def blankElement_def)
  show ?thesis
    by (simp only: w i r o d simp_thms)
qed

end
